theory Spec2Isabelle
  imports Main "HOL-Library.Sublist"
begin

section \<open>Purchase-order extractor: prompt selection, rasterizer, HTTP client, response parser\<close>

text \<open>
  A shallow embedding of \<^verbatim>\<open>anthropic_fix.py\<close> and of the two pure helpers of
  \<^verbatim>\<open>test.py\<close>. Python strings are \<^typ>\<open>string\<close> (characters are code points
  below 256), Python integers are \<^typ>\<open>int\<close>, a raised exception is the left
  injection of a sum, and the libraries the code calls (base64, PyMuPDF, PIL, httpx, json)
  are the fields of an environment record.
\<close>

subsection \<open>Exceptions\<close>

text \<open>
  Every exception the code can meet is a subclass of Python's \<^verbatim>\<open>Exception\<close>; the
  constructor is the class, the argument is what \<^verbatim>\<open>str(e)\<close> returns.
  \<^verbatim>\<open>LibraryError\<close> stands for the exception classes of the external libraries
  (binascii.Error, PyMuPDF's errors, httpx's transport errors, json.JSONDecodeError).
\<close>

datatype exn =
    Exception string
  | TypeError string
  | KeyError string
  | IndexError string
  | ValueError string
  | AttributeError string
  | LibraryError string

fun str_exn :: "exn \<Rightarrow> string" where
  "str_exn (Exception m) = m"
| "str_exn (TypeError m) = m"
| "str_exn (KeyError m) = m"
| "str_exn (IndexError m) = m"
| "str_exn (ValueError m) = m"
| "str_exn (AttributeError m) = m"
| "str_exn (LibraryError m) = m"

subsection \<open>The system instruction (test.py, create\_extraction\_prompt)\<close>

text \<open>The triple-quoted literal of lines 63 to 81, with its line breaks and indentation.\<close>

definition basic_template :: string where
  "basic_template =
     ''\<newline>'' @
     ''    You are an expert document extraction system specializing in Purchase Order extraction.\<newline>'' @
     ''    Extract the following information from the provided purchase order document in a structured JSON format:\<newline>'' @
     ''\<newline>'' @
     ''    1. Purchase order information: PO number, date, expiry date (if available), total amount\<newline>'' @
     ''    2. Customer information: Customer name, address, email ID, contact number\<newline>'' @
     ''    3. Vendor information: Vendor name, address, contact, email\<newline>'' @
     ''    4. Table data: Products/items with their details (convert tables to JSON format)\<newline>'' @
     ''\<newline>'' @
     ''    Rules:\<newline>'' @
     ''    - If any information is not present in the document, use null for that field\<newline>'' @
     ''    - Be precise with field names and values\<newline>'' @
     ''    - Maintain the structure of tables when converting to JSON\<newline>'' @
     ''    - For numerical values, preserve the original format (including currency symbols if present)\<newline>'' @
     ''    - Intelligently handle different PO layouts and formatting anomalies\<newline>'' @
     ''\<newline>'' @
     ''    Provide ONLY the JSON output with no additional explanation.\<newline>'' @
     ''    Format the JSON using appropriate indentation for readability.\<newline>'' @
     ''    ''"

text \<open>The literal appended on line 84.\<close>

definition advanced_extra :: string where
  "advanced_extra =
     ''\<newline>'' @
     ''    Additionally, extract any other fields that might be present in the document, such as:\<newline>'' @
     ''    - Shipping information\<newline>'' @
     ''    - Payment terms\<newline>'' @
     ''    - Discounts\<newline>'' @
     ''    - Tax information\<newline>'' @
     ''    - Notes or additional comments\<newline>'' @
     ''    ''"

text \<open>
  \<^verbatim>\<open>def create_extraction_prompt(pdf_data, mode="basic")\<close>: the first argument is
  never read.
\<close>

definition create_extraction_prompt :: "string \<Rightarrow> string \<Rightarrow> string" where
  "create_extraction_prompt pdf_data mode =
     (let template = basic_template in
      if mode = ''advanced'' then template @ advanced_extra else template)"

subsection \<open>Python string operations\<close>

text \<open>\<^verbatim>\<open>sub in s\<close> on strings: \<open>sub\<close> occurs in \<open>s\<close> at some position.\<close>

fun py_contains :: "string \<Rightarrow> string \<Rightarrow> bool" where
  "py_contains sub [] = (sub = [])"
| "py_contains sub (c # cs) = (prefix sub (c # cs) \<or> py_contains sub cs)"

text \<open>
  \<^verbatim>\<open>s.split(sep)\<close> for a non-empty separator: the text is scanned from the left, every
  occurrence found ends the current piece and the scan resumes behind it, so occurrences
  do not overlap and the result always has at least one piece.
\<close>

function split_pieces :: "string \<Rightarrow> string \<Rightarrow> string list" where
  "split_pieces sep s =
     (if sep \<noteq> [] \<and> prefix sep s then [] # split_pieces sep (drop (length sep) s)
      else (case s of
              [] \<Rightarrow> [[]]
            | c # cs \<Rightarrow> (let r = split_pieces sep cs in (c # hd r) # tl r)))"
  by pat_completeness auto
termination
proof (relation "measure (\<lambda>(sep, s). length s)")
  show "wf (measure (\<lambda>(sep, s). length s))" by simp
next
  fix sep s :: string
  assume "sep \<noteq> [] \<and> prefix sep s"
  then obtain x xs r where "sep = x # xs" and "s = sep @ r"
    by (cases sep) (auto simp: prefix_def)
  then show "((sep, drop (length sep) s), (sep, s)) \<in> measure (\<lambda>(sep, s). length s)"
    by simp
next
  fix sep s :: string and c cs
  assume "s = c # cs"
  then show "((sep, cs), (sep, s)) \<in> measure (\<lambda>(sep, s). length s)"
    by simp
qed

declare split_pieces.simps [simp del]

text \<open>Python raises \<^verbatim>\<open>ValueError\<close> on the empty separator.\<close>

definition py_split :: "string \<Rightarrow> string \<Rightarrow> exn + string list" where
  "py_split sep s =
     (if sep = [] then Inl (ValueError ''empty separator'') else Inr (split_pieces sep s))"

text \<open>\<^verbatim>\<open>xs[i]\<close> on a list, for an index that is not negative.\<close>

definition py_index :: "'a list \<Rightarrow> nat \<Rightarrow> exn + 'a" where
  "py_index xs i =
     (if i < length xs then Inr (xs ! i) else Inl (IndexError ''list index out of range''))"

text \<open>
  \<^verbatim>\<open>s.strip()\<close>: the characters \<^verbatim>\<open>str.isspace\<close> accepts, among the code points
  below 256, are removed from both ends.
\<close>

definition py_isspace :: "char \<Rightarrow> bool" where
  "py_isspace c \<longleftrightarrow>
     c \<in> set [CHR 0x09, CHR 0x0A, CHR 0x0B, CHR 0x0C, CHR 0x0D, CHR 0x1C, CHR 0x1D,
               CHR 0x1E, CHR 0x1F, CHR 0x20, CHR 0x85, CHR 0xA0]"

definition py_strip :: "string \<Rightarrow> string" where
  "py_strip s = rev (dropWhile py_isspace (rev (dropWhile py_isspace s)))"

text \<open>\<^verbatim>\<open>str(n)\<close> for an integer: decimal digits, with a minus sign when negative.\<close>

fun str_nat :: "nat \<Rightarrow> string" where
  "str_nat n =
     (if n < 10 then [char_of (48 + n)] else str_nat (n div 10) @ [char_of (48 + n mod 10)])"

declare str_nat.simps [simp del]

definition str_int :: "int \<Rightarrow> string" where
  "str_int i = (if i < 0 then ''-'' @ str_nat (nat (- i)) else str_nat (nat i))"

text \<open>A name between single quotes, as Python's messages print it.\<close>

definition sq :: "string \<Rightarrow> string" where
  "sq s = [CHR 0x27] @ s @ [CHR 0x27]"

subsection \<open>Sequencing with exceptions\<close>

definition bind_exn :: "exn + 'a \<Rightarrow> ('a \<Rightarrow> exn + 'b) \<Rightarrow> exn + 'b" where
  "bind_exn m f = (case m of Inl e \<Rightarrow> Inl e | Inr x \<Rightarrow> f x)"

subsection \<open>Decoded JSON as Python objects\<close>

text \<open>
  What \<^verbatim>\<open>json.loads\<close> and \<^verbatim>\<open>response.json()\<close> return, and what
  \<^verbatim>\<open>json=payload\<close> sends: \<open>JNull\<close> is Python's \<^verbatim>\<open>None\<close>, \<open>JObject\<close> a
  \<^verbatim>\<open>dict\<close> in insertion order (looked up by its first matching key), \<open>JFloat\<close>
  a float kept as its decimal text.
\<close>

datatype json =
    JNull
  | JBool bool
  | JInt int
  | JFloat string
  | JString string
  | JArray "json list"
  | JObject "(string \<times> json) list"

fun type_name :: "json \<Rightarrow> string" where
  "type_name JNull = ''NoneType''"
| "type_name (JBool b) = ''bool''"
| "type_name (JInt i) = ''int''"
| "type_name (JFloat f) = ''float''"
| "type_name (JString s) = ''str''"
| "type_name (JArray xs) = ''list''"
| "type_name (JObject kvs) = ''dict''"

text \<open>
  The dynamically typed operations of lines 114 to 123, with the exception each raises on
  an operand of the wrong type (messages in CPython 3.12's wording).
  \<^verbatim>\<open>lit in v\<close> for a string literal \<open>lit\<close>:
\<close>

fun py_in :: "string \<Rightarrow> json \<Rightarrow> exn + bool" where
  "py_in lit (JString s) = Inr (py_contains lit s)"
| "py_in lit (JArray xs) = Inr (JString lit \<in> set xs)"
| "py_in lit (JObject kvs) = Inr (map_of kvs lit \<noteq> None)"
| "py_in lit v = Inl (TypeError (''argument of type '' @ sq (type_name v) @ '' is not iterable''))"

text \<open>\<^verbatim>\<open>v[key]\<close> for a string key:\<close>

fun py_getitem_str :: "json \<Rightarrow> string \<Rightarrow> exn + json" where
  "py_getitem_str (JObject kvs) key =
     (case map_of kvs key of Some v \<Rightarrow> Inr v | None \<Rightarrow> Inl (KeyError (sq key)))"
| "py_getitem_str (JArray xs) key =
     Inl (TypeError ''list indices must be integers or slices, not str'')"
| "py_getitem_str (JString s) key =
     Inl (TypeError (''string indices must be integers, not '' @ sq ''str''))"
| "py_getitem_str v key = Inl (TypeError (sq (type_name v) @ '' object is not subscriptable''))"

text \<open>\<^verbatim>\<open>v[0]\<close>; the keys of a decoded object are strings, so 0 is never one of them:\<close>

fun py_getitem_0 :: "json \<Rightarrow> exn + json" where
  "py_getitem_0 (JArray xs) =
     (case xs of [] \<Rightarrow> Inl (IndexError ''list index out of range'') | x # _ \<Rightarrow> Inr x)"
| "py_getitem_0 (JString s) =
     (case s of [] \<Rightarrow> Inl (IndexError ''string index out of range'') | c # _ \<Rightarrow> Inr (JString [c]))"
| "py_getitem_0 (JObject kvs) = Inl (KeyError ''0'')"
| "py_getitem_0 v = Inl (TypeError (sq (type_name v) @ '' object is not subscriptable''))"

text \<open>\<^verbatim>\<open>len(v)\<close>:\<close>

fun py_len :: "json \<Rightarrow> exn + nat" where
  "py_len (JString s) = Inr (length s)"
| "py_len (JArray xs) = Inr (length xs)"
| "py_len (JObject kvs) = Inr (length (remdups (map fst kvs)))"
| "py_len v = Inl (TypeError (''object of type '' @ sq (type_name v) @ '' has no len()''))"

text \<open>The receiver of a string method \<^verbatim>\<open>v.name(...)\<close>:\<close>

fun str_method :: "json \<Rightarrow> string \<Rightarrow> exn + string" where
  "str_method (JString s) name = Inr s"
| "str_method v name =
     Inl (AttributeError (sq (type_name v) @ '' object has no attribute '' @ sq name))"

subsection \<open>The libraries\<close>

text \<open>
  An HTTP request as \<^verbatim>\<open>httpx.Client(timeout=120.0).post(url, headers=..., json=...)\<close>
  sends it, and the response object with the two attributes and the method the code reads.
\<close>

record request =
  req_url :: string
  req_headers :: "(string \<times> string) list"
  req_json :: json
  req_timeout :: nat

record response =
  status_code :: int
  body_text :: string
  body_json :: "exn + json"

text \<open>
  A page of an opened document is the outcome of lines 54 to 65 on it: the PNG bytes of
  the page rendered at zoom 2, or the exception that loading, rendering or saving raises.
\<close>

type_synonym page = "exn + string"

record env =
  b64decode :: "string \<Rightarrow> exn + string"
  b64encode :: "string \<Rightarrow> string"
  fitz_open :: "string \<Rightarrow> exn + page list"
  http_post :: "request \<Rightarrow> exn + response"
  json_loads :: "string \<Rightarrow> exn + json"

subsection \<open>AnthropicDirectClient\<close>

record client =
  api_key :: string
  base_url :: string
  headers :: "(string \<times> string) list"

definition AnthropicDirectClient :: "string \<Rightarrow> client" where
  "AnthropicDirectClient key =
     \<lparr>api_key = key,
      base_url = ''https://api.anthropic.com/v1'',
      headers = [(''x-api-key'', key),
                 (''anthropic-version'', ''2023-06-01''),
                 (''content-type'', ''application/json'')]\<rparr>"

definition default_model :: string where
  "default_model = ''claude-3-7-sonnet-20250219''"

definition default_max_tokens :: int where
  "default_max_tokens = 4000"

definition default_temperature :: int where
  "default_temperature = 0"

text \<open>Lines 25 to 31.\<close>

definition payload :: "string \<Rightarrow> json list \<Rightarrow> string \<Rightarrow> int \<Rightarrow> int \<Rightarrow> json" where
  "payload system messages model max_tokens temperature =
     JObject [(''model'', JString model),
              (''system'', JString system),
              (''messages'', JArray messages),
              (''max_tokens'', JInt max_tokens),
              (''temperature'', JInt temperature)]"

text \<open>Lines 23 to 34: the request handed to \<^verbatim>\<open>client.post\<close>.\<close>

definition message_request ::
  "client \<Rightarrow> string \<Rightarrow> json list \<Rightarrow> string \<Rightarrow> int \<Rightarrow> int \<Rightarrow> request" where
  "message_request self system messages model max_tokens temperature =
     (let url = base_url self @ ''/messages'' in
      \<lparr>req_url = url, req_headers = headers self,
       req_json = payload system messages model max_tokens temperature,
       req_timeout = 120\<rparr>)"

definition create_message ::
  "env \<Rightarrow> client \<Rightarrow> string \<Rightarrow> json list \<Rightarrow> string \<Rightarrow> int \<Rightarrow> int \<Rightarrow> exn + json" where
  "create_message env self system messages model max_tokens temperature =
     bind_exn (http_post env (message_request self system messages model max_tokens temperature))
       (\<lambda>response.
          if status_code response \<noteq> 200
          then Inl (Exception (''API request failed with status '' @
                               str_int (status_code response) @ '': '' @ body_text response))
          else body_json response)"

subsection \<open>pdf\_to\_images\<close>

definition render_page :: "page list \<Rightarrow> nat \<Rightarrow> page" where
  "render_page doc page_num =
     (if page_num < length doc then doc ! page_num
      else Inl (ValueError ''page not in document''))"

text \<open>The loop of lines 53 to 69 over the page numbers still to visit.\<close>

fun render_pages :: "env \<Rightarrow> page list \<Rightarrow> nat list \<Rightarrow> string list \<Rightarrow> exn + string list" where
  "render_pages env doc [] images = Inr images"
| "render_pages env doc (page_num # rest) images =
     bind_exn (render_page doc page_num)
       (\<lambda>png. render_pages env doc rest (images @ [b64encode env png]))"

text \<open>
  The decoding on line 46 is outside the \<^verbatim>\<open>try\<close>, so what it raises is not wrapped;
  everything raised from line 50 on is replaced by the \<^verbatim>\<open>Exception\<close> of line 73.
\<close>

definition pdf_to_images :: "env \<Rightarrow> string \<Rightarrow> int \<Rightarrow> exn + string list" where
  "pdf_to_images env pdf_data max_pages =
     bind_exn (b64decode env pdf_data)
       (\<lambda>pdf_stream.
          case bind_exn (fitz_open env pdf_stream)
                 (\<lambda>doc. render_pages env doc
                           [0 ..< nat (min (int (length doc)) max_pages)] [])
          of Inr images \<Rightarrow> Inr images
           | Inl e \<Rightarrow> Inl (Exception (''Error converting PDF to images: '' @ str_exn e)))"

definition default_max_pages :: int where
  "default_max_pages = 10"

subsection \<open>extract\_data\_with\_direct\_client\<close>

text \<open>Lines 85 to 100: one image block per page image, then the text block.\<close>

definition image_block :: "string \<Rightarrow> json" where
  "image_block img_base64 =
     JObject [(''type'', JString ''image''),
              (''source'', JObject [(''type'', JString ''base64''),
                                    (''media_type'', JString ''image/png''),
                                    (''data'', JString img_base64)])]"

definition text_block :: json where
  "text_block =
     JObject [(''type'', JString ''text''),
              (''text'', JString (''Extract the purchase order information as specified in your instructions. '' @
                                  ''This is a PDF document converted to images.''))]"

fun append_images :: "string list \<Rightarrow> json list \<Rightarrow> json list" where
  "append_images [] content = content"
| "append_images (img_base64 # rest) content =
     append_images rest (content @ [image_block img_base64])"

definition build_content :: "string list \<Rightarrow> json list" where
  "build_content pdf_images = append_images pdf_images [] @ [text_block]"

text \<open>Lines 105 to 110.\<close>

definition user_messages :: "json list \<Rightarrow> json list" where
  "user_messages content = [JObject [(''role'', JString ''user''), (''content'', JArray content)]]"

text \<open>Lines 118 to 123.\<close>

definition extract_json_str :: "json \<Rightarrow> exn + string" where
  "extract_json_str response_text =
     bind_exn (py_in ''```json'' response_text)
       (\<lambda>has_json_fence.
          if has_json_fence then
            bind_exn (str_method response_text ''split'')
              (\<lambda>s. bind_exn (py_split ''```json'' s)
                (\<lambda>parts. bind_exn (py_index parts 1)
                  (\<lambda>after. bind_exn (py_split ''```'' after)
                    (\<lambda>parts'. bind_exn (py_index parts' 0)
                      (\<lambda>inner. Inr (py_strip inner))))))
          else
            bind_exn (py_in ''```'' response_text)
              (\<lambda>has_fence.
                 if has_fence then
                   bind_exn (str_method response_text ''split'')
                     (\<lambda>s. bind_exn (py_split ''```'' s)
                       (\<lambda>parts. bind_exn (py_index parts 1)
                         (\<lambda>after. bind_exn (py_split ''```'' after)
                           (\<lambda>parts'. bind_exn (py_index parts' 0)
                             (\<lambda>inner. Inr (py_strip inner))))))
                 else
                   bind_exn (str_method response_text ''strip'')
                     (\<lambda>s. Inr (py_strip s))))"

text \<open>
  Lines 114 to 129. The returned tuple is a pair of the value (\<open>JNull\<close> for
  \<^verbatim>\<open>None\<close>) and the error (\<open>None\<close> or the message).
\<close>

definition process_response :: "env \<Rightarrow> json \<Rightarrow> exn + json \<times> string option" where
  "process_response env response =
     bind_exn (py_in ''content'' response)
       (\<lambda>has_content.
          bind_exn (if has_content
                    then bind_exn (py_getitem_str response ''content'')
                           (\<lambda>content. bind_exn (py_len content) (\<lambda>n. Inr (n > 0)))
                    else Inr False)
            (\<lambda>non_empty.
               if non_empty then
                 bind_exn (py_getitem_str response ''content'')
                   (\<lambda>content. bind_exn (py_getitem_0 content)
                     (\<lambda>first. bind_exn (py_getitem_str first ''text'')
                       (\<lambda>response_text. bind_exn (extract_json_str response_text)
                         (\<lambda>json_str. bind_exn (json_loads env json_str)
                           (\<lambda>extracted_data. Inr (extracted_data, None))))))
               else Inr (JNull, Some ''No content in response'')))"

text \<open>The body of the \<^verbatim>\<open>try\<close>, lines 79 to 129.\<close>

definition extract_attempt ::
  "env \<Rightarrow> string \<Rightarrow> string \<Rightarrow> string \<Rightarrow> exn + json \<times> string option" where
  "extract_attempt env pdf_base64 key prompt =
     (let client = AnthropicDirectClient key in
      bind_exn (pdf_to_images env pdf_base64 default_max_pages)
        (\<lambda>pdf_images.
           let content = build_content pdf_images in
           bind_exn (create_message env client prompt (user_messages content)
                       default_model default_max_tokens default_temperature)
             (process_response env)))"

text \<open>The handler of lines 130 and 131 turns every exception into the error of the pair.\<close>

definition extract_data_with_direct_client ::
  "env \<Rightarrow> string \<Rightarrow> string \<Rightarrow> string \<Rightarrow> json \<times> string option" where
  "extract_data_with_direct_client env pdf_base64 key prompt =
     (case extract_attempt env pdf_base64 key prompt of
        Inr result \<Rightarrow> result
      | Inl e \<Rightarrow> (JNull, Some (''Error with direct Anthropic API call: '' @ str_exn e)))"

subsection \<open>The caller (test.py)\<close>

definition extract_po_data :: "env \<Rightarrow> string \<Rightarrow> string \<Rightarrow> string \<Rightarrow> json \<times> string option" where
  "extract_po_data env pdf_base64 key mode =
     extract_data_with_direct_client env pdf_base64 key (create_extraction_prompt pdf_base64 mode)"

text \<open>
  Line 154, \<^verbatim>\<open>if error:\<close>: the error branch is taken when the error is neither
  \<^verbatim>\<open>None\<close> nor the empty string.
\<close>

definition shows_error :: "json \<times> string option \<Rightarrow> bool" where
  "shows_error result = (case snd result of None \<Rightarrow> False | Some msg \<Rightarrow> msg \<noteq> [])"

subsection \<open>A fixed environment\<close>

text \<open>
  An environment for evaluating the operations on concrete inputs: base64 decoding is the
  identity, encoding marks its argument, every byte string opens as \<open>opened\<close>, every
  request is answered by \<open>resp\<close>, and the decoder knows the texts listed in \<open>decoded\<close>.
\<close>

definition fixed_env :: "exn + page list \<Rightarrow> response \<Rightarrow> (string \<times> json) list \<Rightarrow> env" where
  "fixed_env opened resp decoded =
     \<lparr>b64decode = Inr,
      b64encode = (\<lambda>png. ''b64:'' @ png),
      fitz_open = (\<lambda>pdf_stream. opened),
      http_post = (\<lambda>req. Inr resp),
      json_loads = (\<lambda>s. case map_of decoded s of
                            Some v \<Rightarrow> Inr v
                          | None \<Rightarrow> Inl (LibraryError ''Expecting value''))\<rparr>"

section \<open>Properties\<close>

subsection \<open>Mode selection\<close>

lemma py_contains_iff: "py_contains sub s \<longleftrightarrow> (\<exists>a b. s = a @ sub @ b)"
proof (induction s)
  case Nil
  then show ?case by auto
next
  case (Cons c cs)
  show ?case
  proof
    assume "py_contains sub (c # cs)"
    then consider "prefix sub (c # cs)" | "py_contains sub cs" by auto
    then show "\<exists>a b. c # cs = a @ sub @ b"
    proof cases
      case 1
      then obtain b where "c # cs = sub @ b" by (auto simp: prefix_def)
      then have "c # cs = [] @ sub @ b" by simp
      then show ?thesis by blast
    next
      case 2
      with Cons.IH obtain a b where "cs = a @ sub @ b" by blast
      then have "c # cs = (c # a) @ sub @ b" by simp
      then show ?thesis by blast
    qed
  next
    assume "\<exists>a b. c # cs = a @ sub @ b"
    then obtain a b where ab: "c # cs = a @ sub @ b" by blast
    show "py_contains sub (c # cs)"
    proof (cases a)
      case Nil
      with ab have "prefix sub (c # cs)" by (simp add: prefix_def)
      then show ?thesis by simp
    next
      case (Cons x a')
      with ab have "cs = a' @ sub @ b" by simp
      with Cons.IH have "py_contains sub cs" by blast
      then show ?thesis by simp
    qed
  qed
qed

text \<open>
  C6. The instruction for mode "advanced" is the instruction for mode "basic" followed by
  a non-empty block, so the basic instruction is a proper prefix of the advanced one;
  the appended block names the five additional categories (shipping, payment terms,
  discounts, tax, notes).
\<close>

theorem advanced_extends_basic:
  "create_extraction_prompt pdf_data ''advanced'' =
     create_extraction_prompt pdf_data' ''basic'' @ advanced_extra
   \<and> strict_prefix (create_extraction_prompt pdf_data' ''basic'')
        (create_extraction_prompt pdf_data ''advanced'')
   \<and> py_contains ''Shipping information'' advanced_extra
   \<and> py_contains ''Payment terms'' advanced_extra
   \<and> py_contains ''Discounts'' advanced_extra
   \<and> py_contains ''Tax information'' advanced_extra
   \<and> py_contains ''Notes or additional comments'' advanced_extra"
proof -
  have eq: "create_extraction_prompt pdf_data ''advanced'' =
      create_extraction_prompt pdf_data' ''basic'' @ advanced_extra"
    by (simp add: create_extraction_prompt_def)
  have ne: "advanced_extra \<noteq> []"
    by (simp add: advanced_extra_def)
  have sp: "strict_prefix (create_extraction_prompt pdf_data' ''basic'')
      (create_extraction_prompt pdf_data ''advanced'')"
    unfolding eq using ne by (simp add: strict_prefix_def prefix_def)
  have c1: "py_contains ''Shipping information'' advanced_extra"
    unfolding advanced_extra_def by code_simp
  have c2: "py_contains ''Payment terms'' advanced_extra"
    unfolding advanced_extra_def by code_simp
  have c3: "py_contains ''Discounts'' advanced_extra"
    unfolding advanced_extra_def by code_simp
  have c4: "py_contains ''Tax information'' advanced_extra"
    unfolding advanced_extra_def by code_simp
  have c5: "py_contains ''Notes or additional comments'' advanced_extra"
    unfolding advanced_extra_def by code_simp
  from eq sp c1 c2 c3 c4 c5 show ?thesis by blast
qed

text \<open>
  C9. The instruction does not depend on the PDF argument, and it is the basic
  instruction for every mode other than the exact string "advanced".
\<close>

theorem prompt_depends_on_mode_only:
  "create_extraction_prompt pdf_data mode = create_extraction_prompt pdf_data' mode
   \<and> (mode \<noteq> ''advanced'' \<longrightarrow> create_extraction_prompt pdf_data mode = basic_template)
   \<and> (mode = ''advanced'' \<longrightarrow>
        create_extraction_prompt pdf_data mode = basic_template @ advanced_extra)"
  by (simp add: create_extraction_prompt_def)

theorem prompt_depends_on_mode_only_witness:
  "create_extraction_prompt ''JVBERi0='' ''Advanced'' = create_extraction_prompt ''AAAA'' ''Advanced''
   \<and> ''Advanced'' \<noteq> ''advanced''
   \<and> create_extraction_prompt ''JVBERi0='' ''Advanced'' = basic_template
   \<and> create_extraction_prompt ''JVBERi0='' ''advanced'' = basic_template @ advanced_extra"
proof -
  have ne: "''Advanced'' \<noteq> ''advanced''" by simp
  from prompt_depends_on_mode_only [of "''JVBERi0=''" "''Advanced''" "''AAAA''"] ne
  have a: "create_extraction_prompt ''JVBERi0='' ''Advanced'' =
      create_extraction_prompt ''AAAA'' ''Advanced''"
    and b: "create_extraction_prompt ''JVBERi0='' ''Advanced'' = basic_template"
    by blast+
  from prompt_depends_on_mode_only [of "''JVBERi0=''" "''advanced''" "''AAAA''"]
  have c: "create_extraction_prompt ''JVBERi0='' ''advanced'' = basic_template @ advanced_extra"
    by blast
  from ne a b c show ?thesis by blast
qed

subsection \<open>Sequencing and loops\<close>

lemma bind_exn_Inl [simp]: "bind_exn (Inl e) f = Inl e"
  by (simp add: bind_exn_def)

lemma bind_exn_Inr [simp]: "bind_exn (Inr x) f = f x"
  by (simp add: bind_exn_def)

lemma bind_exn_eq_Inr: "bind_exn m f = Inr y \<longleftrightarrow> (\<exists>x. m = Inr x \<and> f x = Inr y)"
  by (cases m) auto

lemma append_images_acc: "append_images imgs content = content @ map image_block imgs"
  by (induction imgs arbitrary: content) auto

lemma build_content_eq: "build_content imgs = map image_block imgs @ [text_block]"
  by (simp add: build_content_def append_images_acc)

subsection \<open>The result pair\<close>

lemma process_response_shape:
  assumes "process_response env response = Inr r"
  shows "(\<exists>v s. r = (v, None) \<and> json_loads env s = Inr v) \<or> r = (JNull, Some ''No content in response'')"
  using assms unfolding process_response_def
  by (auto simp: bind_exn_eq_Inr split: if_splits)

text \<open>
  C2. For every environment and every input the operation returns a pair that is either a
  value decoded by \<^verbatim>\<open>json.loads\<close> with no error, or \<^verbatim>\<open>None\<close> with a
  non-empty error string; every exception raised inside is turned into the second form.
\<close>

theorem result_or_error:
  "(\<exists>v s. extract_data_with_direct_client env pdf_base64 key prompt = (v, None)
           \<and> json_loads env s = Inr v)
   \<or> (\<exists>msg. extract_data_with_direct_client env pdf_base64 key prompt = (JNull, Some msg)
           \<and> msg \<noteq> [])"
proof (cases "extract_attempt env pdf_base64 key prompt")
  case (Inl e)
  then show ?thesis by (simp add: extract_data_with_direct_client_def)
next
  case (Inr r)
  then obtain response where "process_response env response = Inr r"
    by (auto simp: extract_attempt_def Let_def bind_exn_eq_Inr)
  from process_response_shape [OF this] Inr show ?thesis
    by (auto simp: extract_data_with_direct_client_def)
qed

subsection \<open>The HTTP client\<close>

lemma py_contains_middle: "py_contains sub (a @ sub @ b)"
  by (auto simp: py_contains_iff)

lemma str_int_401: "str_int 401 = ''401''"
  by code_simp

text \<open>The decimal text of an integer.\<close>

lemma str_nat_nonempty: "str_nat n \<noteq> []"
  by (subst str_nat.simps) simp

lemma digit_char_value: "d < 10 \<Longrightarrow> of_char (char_of (48 + d)) = (48 + d :: nat)"
  by simp

lemma str_nat_digits: "set (str_nat n) \<subseteq> set ''0123456789''"
proof (induction n rule: str_nat.induct)
  case (1 n)
  have d: "char_of (48 + k) \<in> set ''0123456789''" if "k < 10" for k :: nat
  proof -
    have "\<forall>d \<in> set [0 ..< 10]. char_of (48 + d :: nat) \<in> set ''0123456789''"
      by code_simp
    moreover from that have "k \<in> set [0 ..< 10]" by simp
    ultimately show ?thesis by blast
  qed
  show ?case
  proof (cases "n < 10")
    case True
    with d [of n] show ?thesis by (subst str_nat.simps) simp
  next
    case False
    have "n mod 10 < 10" by simp
    from d [OF this] 1 False show ?thesis by (subst str_nat.simps) simp
  qed
qed

lemma str_nat_value:
  "foldl (\<lambda>acc c. 10 * acc + (of_char c - 48)) 0 (str_nat n) = n"
proof (induction n rule: str_nat.induct)
  case (1 n)
  show ?case
  proof (cases "n < 10")
    case True
    then show ?thesis by (subst str_nat.simps) simp
  next
    case False
    have "n mod 10 < 10" by simp
    then have "of_char (char_of (48 + n mod 10)) - 48 = n mod 10"
      by (simp only: digit_char_value)
    with 1 False show ?thesis by (subst str_nat.simps) simp
  qed
qed

lemma str_nat_leading: "0 < n \<Longrightarrow> hd (str_nat n) \<noteq> CHR ''0''"
proof (induction n rule: str_nat.induct)
  case (1 n)
  show ?case
  proof (cases "n < 10")
    case True
    have "\<forall>d \<in> set [1 ..< 10]. hd (str_nat d) \<noteq> CHR ''0''"
      by code_simp
    moreover from True 1 have "n \<in> set [1 ..< 10]" by simp
    ultimately show ?thesis by blast
  next
    case False
    then have "0 < n div 10" by simp
    with 1 False have "hd (str_nat (n div 10)) \<noteq> CHR ''0''" by simp
    with False show ?thesis
      by (subst str_nat.simps) (simp add: str_nat_nonempty)
  qed
qed

lemma str_int_digits: "0 \<le> code \<Longrightarrow> set (str_int code) \<subseteq> set ''0123456789''"
  using str_nat_digits [of "nat code"] by (simp only: str_int_def) simp

lemma str_int_value:
  "0 \<le> code \<Longrightarrow> foldl (\<lambda>acc c. 10 * acc + (of_char c - 48)) 0 (str_int code) = nat code"
  using str_nat_value [of "nat code"] by (simp add: str_int_def)

lemma str_int_leading: "0 < code \<Longrightarrow> hd (str_int code) \<noteq> CHR ''0''"
  using str_nat_leading [of "nat code"] by (simp add: str_int_def)

lemma str_int_negative: "code < 0 \<Longrightarrow> str_int code = ''-'' @ str_int (- code)"
  by (simp add: str_int_def)

text \<open>
  C5 as stated fails on a success status. A response with status 200 whose body is not
  JSON makes \<^verbatim>\<open>response.json()\<close> raise, so the call fails although the status is a
  success and no parsed body is returned; and status 201, a success status of HTTP, raises
  the status error, because line 36 compares with 200 only.
\<close>

theorem success_status_counterexample:
  "create_message
     (fixed_env (Inr [])
        \<lparr>status_code = 200, body_text = ''<html>busy</html>'',
         body_json = Inl (LibraryError ''Expecting value: line 1 column 1 (char 0)'')\<rparr> [])
     (AnthropicDirectClient ''k'') ''sys'' [] default_model 4000 0
     = Inl (LibraryError ''Expecting value: line 1 column 1 (char 0)'')
   \<and> create_message
     (fixed_env (Inr [])
        \<lparr>status_code = 201, body_text = ''{}'', body_json = Inr (JObject [])\<rparr> [])
     (AnthropicDirectClient ''k'') ''sys'' [] default_model 4000 0
     = Inl (Exception ''API request failed with status 201: {}'')"
proof -
  have "str_int 201 = ''201''" by code_simp
  then show ?thesis by (simp add: create_message_def fixed_env_def)
qed


text \<open>
  C5, amended. A transport failure is raised as it is, without a status. Once a response
  is delivered, \<^verbatim>\<open>create_message\<close> raises the status error when, and only when, the
  status is not 200 (so also for 201 or 204); its text is the fixed prefix, the status
  code in decimal, a colon and the response body verbatim. At status 200 the outcome is
  that of \<^verbatim>\<open>response.json()\<close>: the parsed body unmodified, or the exception it
  raises. The decimal text of a status code has digits only, reads back as the code and
  has no leading zero; for status 401 it is "401".
\<close>

theorem create_message_outcomes:
  "(http_post env (message_request self system messages model max_tokens temperature) = Inl e
      \<longrightarrow> create_message env self system messages model max_tokens temperature = Inl e)
   \<and> (http_post env (message_request self system messages model max_tokens temperature)
        = Inr response \<and> status_code response \<noteq> 200
      \<longrightarrow> create_message env self system messages model max_tokens temperature =
            Inl (Exception (''API request failed with status '' @
                            str_int (status_code response) @ '': '' @ body_text response))
        \<and> py_contains (str_int (status_code response))
            (''API request failed with status '' @
             str_int (status_code response) @ '': '' @ body_text response)
        \<and> py_contains (body_text response)
            (''API request failed with status '' @
             str_int (status_code response) @ '': '' @ body_text response))
   \<and> (http_post env (message_request self system messages model max_tokens temperature)
        = Inr response \<and> status_code response = 200
      \<longrightarrow> create_message env self system messages model max_tokens temperature =
            body_json response)
   \<and> (http_post env (message_request self system messages model max_tokens temperature)
        = Inr response \<and> status_code response = 200 \<and> body_json response = Inr body
      \<longrightarrow> create_message env self system messages model max_tokens temperature = Inr body)
   \<and> (0 \<le> code \<longrightarrow>
        set (str_int code) \<subseteq> set ''0123456789''
        \<and> foldl (\<lambda>acc c. 10 * acc + (of_char c - 48)) 0 (str_int code) = nat code)
   \<and> (0 < code \<longrightarrow> hd (str_int code) \<noteq> CHR ''0'')
   \<and> (code < 0 \<longrightarrow> str_int code = ''-'' @ str_int (- code))
   \<and> str_int 401 = ''401''"
proof -
  let ?msg = "''API request failed with status '' @
      str_int (status_code response) @ '': '' @ body_text response"
  have a: "py_contains (str_int (status_code response)) ?msg"
    by (rule py_contains_middle)
  have "(''API request failed with status '' @ str_int (status_code response) @ '': '')
      @ body_text response @ [] = ?msg"
    by simp
  with py_contains_middle [of "body_text response"
      "''API request failed with status '' @ str_int (status_code response) @ '': ''" "[]"]
  have b: "py_contains (body_text response) ?msg"
    by (simp only:)
  have transport: "http_post env (message_request self system messages model max_tokens temperature) = Inl e
      \<longrightarrow> create_message env self system messages model max_tokens temperature = Inl e"
    by (simp add: create_message_def)
  have failure: "http_post env (message_request self system messages model max_tokens temperature)
        = Inr response \<and> status_code response \<noteq> 200
      \<longrightarrow> create_message env self system messages model max_tokens temperature =
            Inl (Exception ?msg)"
    by (simp add: create_message_def)
  have success: "http_post env (message_request self system messages model max_tokens temperature)
        = Inr response \<and> status_code response = 200
      \<longrightarrow> create_message env self system messages model max_tokens temperature =
            body_json response"
    by (simp add: create_message_def)
  from failure a b
  have failure': "http_post env (message_request self system messages model max_tokens temperature)
        = Inr response \<and> status_code response \<noteq> 200
      \<longrightarrow> create_message env self system messages model max_tokens temperature =
            Inl (Exception ?msg)
        \<and> py_contains (str_int (status_code response)) ?msg
        \<and> py_contains (body_text response) ?msg"
    by blast
  from success
  have success': "http_post env (message_request self system messages model max_tokens temperature)
        = Inr response \<and> status_code response = 200 \<and> body_json response = Inr body
      \<longrightarrow> create_message env self system messages model max_tokens temperature = Inr body"
    by simp
  have d1: "0 \<le> code \<longrightarrow>
        set (str_int code) \<subseteq> set ''0123456789''
        \<and> foldl (\<lambda>acc c. 10 * acc + (of_char c - 48)) 0 (str_int code) = nat code"
    using str_int_digits [of code] str_int_value [of code] by blast
  have d2: "0 < code \<longrightarrow> hd (str_int code) \<noteq> CHR ''0''"
    using str_int_leading [of code] by blast
  have d3: "code < 0 \<longrightarrow> str_int code = ''-'' @ str_int (- code)"
    using str_int_negative [of code] by blast
  from transport failure' success success' d1 d2 d3 str_int_401
  show ?thesis by - (intro conjI; assumption)
qed


theorem create_message_outcomes_witness:
  "create_message
     ((fixed_env (Inr []) \<lparr>status_code = 200, body_text = [], body_json = Inr JNull\<rparr> [])
        \<lparr>http_post := (\<lambda>req. Inl (LibraryError ''connect timeout''))\<rparr>)
     (AnthropicDirectClient ''k'') ''sys'' [] default_model 4000 0
     = Inl (LibraryError ''connect timeout'')
   \<and> create_message
       (fixed_env (Inr []) \<lparr>status_code = 401, body_text = ''unauthorized'', body_json = Inr JNull\<rparr> [])
       (AnthropicDirectClient ''k'') ''sys'' [] default_model 4000 0
     = Inl (Exception ''API request failed with status 401: unauthorized'')
   \<and> py_contains ''401'' ''API request failed with status 401: unauthorized''
   \<and> py_contains ''unauthorized'' ''API request failed with status 401: unauthorized''
   \<and> create_message
       (fixed_env (Inr []) \<lparr>status_code = 200, body_text = ''{}'', body_json = Inr (JObject [])\<rparr> [])
       (AnthropicDirectClient ''k'') ''sys'' [] default_model 4000 0
     = Inr (JObject [])
   \<and> set (str_int 401) \<subseteq> set ''0123456789''
   \<and> foldl (\<lambda>acc c. 10 * acc + (of_char c - 48)) 0 (str_int 401) = nat 401
   \<and> hd (str_int 401) \<noteq> CHR ''0''
   \<and> str_int (- 7) = ''-'' @ str_int 7"
proof -
  let ?r1 = "\<lparr>status_code = 401, body_text = ''unauthorized'', body_json = Inr JNull\<rparr>"
  let ?r2 = "\<lparr>status_code = 200, body_text = ''{}'', body_json = Inr (JObject [])\<rparr>"
  let ?e0 = "(fixed_env (Inr []) \<lparr>status_code = 200, body_text = [], body_json = Inr JNull\<rparr> [])
      \<lparr>http_post := (\<lambda>req. Inl (LibraryError ''connect timeout''))\<rparr>"
  let ?e1 = "fixed_env (Inr []) ?r1 []"
  let ?e2 = "fixed_env (Inr []) ?r2 []"
  let ?q = "message_request (AnthropicDirectClient ''k'') ''sys'' [] default_model 4000 0"
  have p0: "http_post ?e0 ?q = Inl (LibraryError ''connect timeout'')"
    by (simp add: fixed_env_def)
  have p1: "http_post ?e1 ?q = Inr ?r1 \<and> status_code ?r1 \<noteq> 200"
    by (simp add: fixed_env_def)
  have p2: "http_post ?e2 ?q = Inr ?r2 \<and> status_code ?r2 = 200 \<and> body_json ?r2 = Inr (JObject [])"
    by (simp add: fixed_env_def)
  have s: "str_int 401 = ''401''"
    using create_message_outcomes [where code = 401] by blast
  from create_message_outcomes [where env = ?e0 and self = "AnthropicDirectClient ''k''"
      and system = "''sys''" and messages = "[]" and model = default_model
      and max_tokens = 4000 and temperature = 0 and e = "LibraryError ''connect timeout''"] p0
  have c0: "create_message ?e0 (AnthropicDirectClient ''k'') ''sys'' [] default_model 4000 0
      = Inl (LibraryError ''connect timeout'')"
    by blast
  from create_message_outcomes [where env = ?e1 and self = "AnthropicDirectClient ''k''"
      and system = "''sys''" and messages = "[]" and model = default_model
      and max_tokens = 4000 and temperature = 0 and response = ?r1] p1
  have "create_message ?e1 (AnthropicDirectClient ''k'') ''sys'' [] default_model 4000 0
      = Inl (Exception (''API request failed with status '' @ str_int (status_code ?r1) @ '': ''
          @ body_text ?r1))
    \<and> py_contains (str_int (status_code ?r1))
        (''API request failed with status '' @ str_int (status_code ?r1) @ '': '' @ body_text ?r1)
    \<and> py_contains (body_text ?r1)
        (''API request failed with status '' @ str_int (status_code ?r1) @ '': '' @ body_text ?r1)"
    by blast
  then have c1: "create_message ?e1 (AnthropicDirectClient ''k'') ''sys'' [] default_model 4000 0
      = Inl (Exception ''API request failed with status 401: unauthorized'')
    \<and> py_contains ''401'' ''API request failed with status 401: unauthorized''
    \<and> py_contains ''unauthorized'' ''API request failed with status 401: unauthorized''"
    by (simp add: s del: py_contains.simps)
  from create_message_outcomes [where env = ?e2 and self = "AnthropicDirectClient ''k''"
      and system = "''sys''" and messages = "[]" and model = default_model
      and max_tokens = 4000 and temperature = 0 and response = ?r2
      and body = "JObject []"] p2
  have c2: "create_message ?e2 (AnthropicDirectClient ''k'') ''sys'' [] default_model 4000 0
      = Inr (JObject [])"
    by blast
  have pos: "(0::int) \<le> 401" "(0::int) < 401" "(- 7 :: int) < 0" by simp_all
  from create_message_outcomes [where code = 401] pos
  have d1: "set (str_int 401) \<subseteq> set ''0123456789''
      \<and> foldl (\<lambda>acc c. 10 * acc + (of_char c - 48)) 0 (str_int 401) = nat 401
      \<and> hd (str_int 401) \<noteq> CHR ''0''"
    by blast
  from create_message_outcomes [where code = "- 7"] pos
  have "str_int (- 7) = ''-'' @ str_int (- (- 7))" by blast
  then have d2: "str_int (- 7) = ''-'' @ str_int 7" by simp
  from c0 c1 c2 d1 d2 show ?thesis by - (intro conjI; (elim conjE)?; assumption)
qed

subsection \<open>The rasterizer\<close>

lemma render_pages_ok:
  assumes "\<forall>i < length ns. render_page doc (ns ! i) = Inr (pngs ! i)" and "length pngs = length ns"
  shows "render_pages env doc ns images = Inr (images @ map (b64encode env) pngs)"
  using assms
proof (induction ns arbitrary: images pngs)
  case Nil
  then show ?case by simp
next
  case (Cons n ns)
  then obtain p ps where pngs: "pngs = p # ps" by (cases pngs) auto
  from Cons.prems pngs have h: "render_page doc n = Inr p" by auto
  from Cons.prems pngs have t: "\<forall>i < length ns. render_page doc (ns ! i) = Inr (ps ! i)" by auto
  from Cons.prems pngs have l: "length ps = length ns" by simp
  from Cons.IH [OF t l] h pngs show ?case by simp
qed

lemma render_pages_length:
  "render_pages env doc ns images = Inr result \<Longrightarrow> length result = length images + length ns"
  by (induction ns arbitrary: images) (auto simp: bind_exn_eq_Inr)

lemma pdf_to_images_Inr:
  assumes "pdf_to_images env pdf_data max_pages = Inr images"
  shows "\<exists>pdf_stream doc. b64decode env pdf_data = Inr pdf_stream \<and> fitz_open env pdf_stream = Inr doc
     \<and> render_pages env doc [0 ..< nat (min (int (length doc)) max_pages)] [] = Inr images"
proof (cases "b64decode env pdf_data")
  case (Inl e)
  with assms show ?thesis by (simp add: pdf_to_images_def)
next
  case s: (Inr pdf_stream)
  show ?thesis
  proof (cases "fitz_open env pdf_stream")
    case (Inl e)
    with assms s show ?thesis by (simp add: pdf_to_images_def)
  next
    case d: (Inr doc)
    show ?thesis
    proof (cases "render_pages env doc [0 ..< nat (min (int (length doc)) max_pages)] []")
      case (Inl e)
      with assms s d show ?thesis by (simp add: pdf_to_images_def)
    next
      case (Inr result)
      with assms s d show ?thesis by (simp add: pdf_to_images_def)
    qed
  qed
qed

text \<open>
  C3. For a document that opens, has more pages than a non-negative maximum, and whose
  first \<open>max_pages\<close> pages render, the result is the encoded images of exactly those
  pages in page order, whatever the later pages are; and no successful call returns more
  images than the maximum.
\<close>

theorem pdf_to_images_truncates:
  "(b64decode env pdf_data = Inr pdf_stream \<and> fitz_open env pdf_stream = Inr doc
      \<and> 0 \<le> max_pages \<and> max_pages < int (length doc)
      \<and> take (nat max_pages) doc = map Inr pngs
    \<longrightarrow> pdf_to_images env pdf_data max_pages = Inr (map (b64encode env) pngs)
        \<and> int (length (map (b64encode env) pngs)) = max_pages)
   \<and> (pdf_to_images env pdf_data max_pages = Inr images \<and> 0 \<le> max_pages
    \<longrightarrow> int (length images) \<le> max_pages)"
proof (intro conjI impI)
  assume h: "b64decode env pdf_data = Inr pdf_stream \<and> fitz_open env pdf_stream = Inr doc
      \<and> 0 \<le> max_pages \<and> max_pages < int (length doc)
      \<and> take (nat max_pages) doc = map Inr pngs"
  then have m: "nat (min (int (length doc)) max_pages) = nat max_pages" by simp
  from h have len: "length pngs = nat max_pages"
    by (metis length_map length_take min.absorb2 nat_less_iff nat_less_le of_nat_0_le_iff nat_int less_imp_le)
  have "\<forall>i < length [0 ..< nat max_pages]. render_page doc ([0 ..< nat max_pages] ! i) = Inr (pngs ! i)"
  proof (intro allI impI)
    fix i assume "i < length [0 ..< nat max_pages]"
    then have i: "i < nat max_pages" by simp
    with h have "i < length doc" by linarith
    moreover from i have "doc ! i = take (nat max_pages) doc ! i" by simp
    moreover from i len h have "take (nat max_pages) doc ! i = Inr (pngs ! i)" by simp
    ultimately show "render_page doc ([0 ..< nat max_pages] ! i) = Inr (pngs ! i)"
      using i by (simp add: render_page_def)
  qed
  from render_pages_ok [OF this, of env "[]"] len
  have "render_pages env doc [0 ..< nat max_pages] [] = Inr (map (b64encode env) pngs)" by simp
  with h m show "pdf_to_images env pdf_data max_pages = Inr (map (b64encode env) pngs)"
    by (simp add: pdf_to_images_def)
  from len h show "int (length (map (b64encode env) pngs)) = max_pages" by simp
next
  assume h: "pdf_to_images env pdf_data max_pages = Inr images \<and> 0 \<le> max_pages"
  then obtain doc where "render_pages env doc [0 ..< nat (min (int (length doc)) max_pages)] [] = Inr images"
    using pdf_to_images_Inr by blast
  from render_pages_length [OF this] h show "int (length images) \<le> max_pages" by simp
qed

theorem pdf_to_images_truncates_witness:
  "pdf_to_images
     (fixed_env (Inr [Inr ''p0'', Inr ''p1'', Inl (ValueError ''bad page'')])
        \<lparr>status_code = 200, body_text = [], body_json = Inr JNull\<rparr> [])
     ''JVBERi0='' 2 = Inr [''b64:p0'', ''b64:p1'']
   \<and> int (length [''b64:p0'', ''b64:p1'']) \<le> 2"
proof -
  let ?doc = "[Inr ''p0'', Inr ''p1'', Inl (ValueError ''bad page'')] :: page list"
  let ?env = "fixed_env (Inr ?doc) \<lparr>status_code = 200, body_text = [], body_json = Inr JNull\<rparr> []"
  have h: "b64decode ?env ''JVBERi0='' = Inr ''JVBERi0='' \<and> fitz_open ?env ''JVBERi0='' = Inr ?doc
      \<and> (0::int) \<le> 2 \<and> 2 < int (length ?doc) \<and> take (nat 2) ?doc = map Inr [''p0'', ''p1'']"
    by (simp add: fixed_env_def)
  have e: "map (b64encode ?env) [''p0'', ''p1''] = [''b64:p0'', ''b64:p1'']"
    by (simp add: fixed_env_def)
  from pdf_to_images_truncates [of ?env "''JVBERi0=''" "''JVBERi0=''" ?doc 2 "[''p0'', ''p1'']" "[''b64:p0'', ''b64:p1'']"] h
  have r: "pdf_to_images ?env ''JVBERi0='' 2 = Inr (map (b64encode ?env) [''p0'', ''p1''])"
    by blast
  with e have r': "pdf_to_images ?env ''JVBERi0='' 2 = Inr [''b64:p0'', ''b64:p1'']" by simp
  with pdf_to_images_truncates [of ?env "''JVBERi0=''" "''JVBERi0=''" ?doc 2 "[''p0'', ''p1'']" "[''b64:p0'', ''b64:p1'']"]
  have "int (length [''b64:p0'', ''b64:p1'']) \<le> 2" by simp
  with r' show ?thesis by blast
qed

text \<open>
  C4 as stated fails for a document without pages: the loop runs zero times and the empty
  list is returned.
\<close>

theorem empty_document_counterexample:
  "pdf_to_images (fixed_env (Inr []) \<lparr>status_code = 200, body_text = [], body_json = Inr JNull\<rparr> [])
     ''JVBERi0='' 10 = Inr []"
  by (simp add: pdf_to_images_def fixed_env_def)

text \<open>
  C4, amended. When the decoded bytes cannot be opened as a PDF the call raises the
  wrapped error of line 73; a document with zero pages that opens yields the empty list
  and no error; a failure of the base64 decoding on line 46 is raised as it is.
\<close>

theorem pdf_to_images_failures:
  "(b64decode env pdf_data = Inr pdf_stream \<and> fitz_open env pdf_stream = Inl e
      \<longrightarrow> pdf_to_images env pdf_data max_pages =
            Inl (Exception (''Error converting PDF to images: '' @ str_exn e)))
   \<and> (b64decode env pdf_data = Inr pdf_stream \<and> fitz_open env pdf_stream = Inr []
      \<longrightarrow> pdf_to_images env pdf_data max_pages = Inr [])
   \<and> (b64decode env pdf_data = Inl e \<longrightarrow> pdf_to_images env pdf_data max_pages = Inl e)"
  by (simp add: pdf_to_images_def)

theorem pdf_to_images_failures_witness:
  "pdf_to_images (fixed_env (Inl (LibraryError ''cannot open broken document''))
        \<lparr>status_code = 200, body_text = [], body_json = Inr JNull\<rparr> []) ''AAAA'' 10
     = Inl (Exception ''Error converting PDF to images: cannot open broken document'')
   \<and> pdf_to_images (fixed_env (Inr []) \<lparr>status_code = 200, body_text = [], body_json = Inr JNull\<rparr> [])
        ''JVBERi0='' 10 = Inr []
   \<and> pdf_to_images ((fixed_env (Inr []) \<lparr>status_code = 200, body_text = [], body_json = Inr JNull\<rparr> [])
          \<lparr>b64decode := (\<lambda>s. Inl (LibraryError ''Incorrect padding''))\<rparr>) ''A'' 10
     = Inl (LibraryError ''Incorrect padding'')"
proof -
  let ?r = "\<lparr>status_code = 200, body_text = [], body_json = Inr JNull\<rparr>"
  let ?e1 = "fixed_env (Inl (LibraryError ''cannot open broken document'')) ?r []"
  let ?e2 = "fixed_env (Inr []) ?r []"
  let ?e3 = "?e2\<lparr>b64decode := (\<lambda>s. Inl (LibraryError ''Incorrect padding''))\<rparr>"
  have h1: "b64decode ?e1 ''AAAA'' = Inr ''AAAA'' \<and>
      fitz_open ?e1 ''AAAA'' = Inl (LibraryError ''cannot open broken document'')"
    by (simp add: fixed_env_def)
  have h2: "b64decode ?e2 ''JVBERi0='' = Inr ''JVBERi0='' \<and> fitz_open ?e2 ''JVBERi0='' = Inr []"
    by (simp add: fixed_env_def)
  have h3: "b64decode ?e3 ''A'' = Inl (LibraryError ''Incorrect padding'')"
    by (simp add: fixed_env_def)
  from pdf_to_images_failures [of ?e1 "''AAAA''" "''AAAA''" "LibraryError ''cannot open broken document''" 10] h1
  have a: "pdf_to_images ?e1 ''AAAA'' 10 =
      Inl (Exception ''Error converting PDF to images: cannot open broken document'')"
    by simp
  from pdf_to_images_failures [of ?e2 "''JVBERi0=''" "''JVBERi0=''" _ 10] h2
  have b: "pdf_to_images ?e2 ''JVBERi0='' 10 = Inr []"
    by blast
  from pdf_to_images_failures [of ?e3 "''A''" _ "LibraryError ''Incorrect padding''" 10] h3
  have c: "pdf_to_images ?e3 ''A'' 10 = Inl (LibraryError ''Incorrect padding'')"
    by blast
  from a b c show ?thesis by blast
qed

subsection \<open>The request\<close>

text \<open>
  C7. For every list of page images the content is one image block per image, in the same
  order, each a base64 source of media type image/png carrying that image, followed by
  exactly one text block whose text is a fixed string; in the request built for any mode
  the mode reaches the system field only.
\<close>

theorem content_blocks:
  "build_content pdf_images = map image_block pdf_images @ [text_block]
   \<and> image_block img_base64 =
       JObject [(''type'', JString ''image''),
                (''source'', JObject [(''type'', JString ''base64''),
                                      (''media_type'', JString ''image/png''),
                                      (''data'', JString img_base64)])]
   \<and> text_block =
       JObject [(''type'', JString ''text''),
                (''text'', JString ''Extract the purchase order information as specified in your instructions. This is a PDF document converted to images.'')]
   \<and> req_json (message_request (AnthropicDirectClient key)
         (create_extraction_prompt pdf_base64 mode) (user_messages (build_content pdf_images))
         default_model default_max_tokens default_temperature) =
       JObject [(''model'', JString ''claude-3-7-sonnet-20250219''),
                (''system'', JString (create_extraction_prompt pdf_base64 mode)),
                (''messages'', JArray [JObject [(''role'', JString ''user''),
                    (''content'', JArray (map image_block pdf_images @ [text_block]))]]),
                (''max_tokens'', JInt 4000),
                (''temperature'', JInt 0)]"
  by (simp add: build_content_eq image_block_def text_block_def message_request_def
      payload_def user_messages_def default_model_def default_max_tokens_def
      default_temperature_def)

text \<open>
  C8. The request is a function of the system instruction, the image list and the key
  alone: equal instructions and image lists give equal JSON bodies (whatever the keys),
  with equal keys the whole request is equal, and the body has exactly the five fields
  written out below, none of which varies between calls.
\<close>

theorem request_deterministic:
  "(system = system' \<and> pdf_images = pdf_images' \<longrightarrow>
      req_json (message_request (AnthropicDirectClient key) system
          (user_messages (build_content pdf_images))
          default_model default_max_tokens default_temperature) =
      req_json (message_request (AnthropicDirectClient key') system'
          (user_messages (build_content pdf_images'))
          default_model default_max_tokens default_temperature))
   \<and> (system = system' \<and> pdf_images = pdf_images' \<and> key = key' \<longrightarrow>
      message_request (AnthropicDirectClient key) system
          (user_messages (build_content pdf_images))
          default_model default_max_tokens default_temperature =
      message_request (AnthropicDirectClient key') system'
          (user_messages (build_content pdf_images'))
          default_model default_max_tokens default_temperature)
   \<and> message_request (AnthropicDirectClient key) system
          (user_messages (build_content pdf_images))
          default_model default_max_tokens default_temperature =
      \<lparr>req_url = ''https://api.anthropic.com/v1/messages'',
       req_headers = [(''x-api-key'', key), (''anthropic-version'', ''2023-06-01''),
                      (''content-type'', ''application/json'')],
       req_json = JObject [(''model'', JString ''claude-3-7-sonnet-20250219''),
                (''system'', JString system),
                (''messages'', JArray [JObject [(''role'', JString ''user''),
                    (''content'', JArray (map image_block pdf_images @ [text_block]))]]),
                (''max_tokens'', JInt 4000),
                (''temperature'', JInt 0)],
       req_timeout = 120\<rparr>"
  by (simp add: build_content_eq message_request_def AnthropicDirectClient_def
      payload_def user_messages_def default_model_def default_max_tokens_def
      default_temperature_def)

theorem request_deterministic_witness:
  "req_json (message_request (AnthropicDirectClient ''key-1'') ''rules''
          (user_messages (build_content [''aW1n'']))
          default_model default_max_tokens default_temperature) =
   req_json (message_request (AnthropicDirectClient ''key-2'') ''rules''
          (user_messages (build_content [''aW1n'']))
          default_model default_max_tokens default_temperature)
   \<and> message_request (AnthropicDirectClient ''key-1'') ''rules''
          (user_messages (build_content [''aW1n'']))
          default_model default_max_tokens default_temperature =
     message_request (AnthropicDirectClient ''key-1'') ''rules''
          (user_messages (build_content [''aW1n'']))
          default_model default_max_tokens default_temperature"
  using request_deterministic [of "''rules''" "''rules''" "[''aW1n'']" "[''aW1n'']" "''key-1''" "''key-2''"]
    request_deterministic [of "''rules''" "''rules''" "[''aW1n'']" "[''aW1n'']" "''key-1''" "''key-1''"]
  by blast

subsection \<open>A decoded null\<close>

lemma fenced_null: "extract_json_str (JString ''```json\<newline>null\<newline>```'') = Inr ''null''"
  by code_simp

text \<open>
  C10. When the substring extracted from the first content element's text is "null" and
  the decoder maps it to \<^verbatim>\<open>None\<close>, the operation returns the pair of
  \<^verbatim>\<open>None\<close> and \<^verbatim>\<open>None\<close>, and the caller's test of the error takes the
  success branch.
\<close>

theorem null_literal_is_silent:
  assumes "pdf_to_images env pdf_base64 default_max_pages = Inr pdf_images"
    and "create_message env (AnthropicDirectClient key) prompt
           (user_messages (build_content pdf_images))
           default_model default_max_tokens default_temperature = Inr response"
    and "py_in ''content'' response = Inr True"
    and "py_getitem_str response ''content'' = Inr content"
    and "py_len content = Inr n" and "0 < n"
    and "py_getitem_0 content = Inr first"
    and "py_getitem_str first ''text'' = Inr response_text"
    and "extract_json_str response_text = Inr ''null''"
    and "json_loads env ''null'' = Inr JNull"
  shows "extract_data_with_direct_client env pdf_base64 key prompt = (JNull, None)
       \<and> \<not> shows_error (extract_data_with_direct_client env pdf_base64 key prompt)"
proof -
  from assms(3-10) have "process_response env response = Inr (JNull, None)"
    by (simp add: process_response_def)
  with assms(1,2) have "extract_attempt env pdf_base64 key prompt = Inr (JNull, None)"
    by (simp add: extract_attempt_def)
  then show ?thesis
    by (simp add: extract_data_with_direct_client_def shows_error_def)
qed

theorem null_literal_is_silent_witness:
  "extract_json_str (JString ''```json\<newline>null\<newline>```'') = Inr ''null''
   \<and> extract_data_with_direct_client
        (fixed_env (Inr [Inr ''p0''])
           \<lparr>status_code = 200, body_text = ''...'',
            body_json = Inr (JObject [(''content'', JArray [JObject [(''type'', JString ''text''),
                (''text'', JString ''```json\<newline>null\<newline>```'')]])])\<rparr>
           [(''null'', JNull)])
        ''JVBERi0='' ''key'' ''rules'' = (JNull, None)
   \<and> \<not> shows_error (extract_data_with_direct_client
        (fixed_env (Inr [Inr ''p0''])
           \<lparr>status_code = 200, body_text = ''...'',
            body_json = Inr (JObject [(''content'', JArray [JObject [(''type'', JString ''text''),
                (''text'', JString ''```json\<newline>null\<newline>```'')]])])\<rparr>
           [(''null'', JNull)])
        ''JVBERi0='' ''key'' ''rules'')"
proof -
  let ?first = "JObject [(''type'', JString ''text''), (''text'', JString ''```json\<newline>null\<newline>```'')]"
  let ?resp = "JObject [(''content'', JArray [?first])]"
  let ?env = "fixed_env (Inr [Inr ''p0''])
      \<lparr>status_code = 200, body_text = ''...'', body_json = Inr ?resp\<rparr> [(''null'', JNull)]"
  have one: "[0 ..< nat (min 1 default_max_pages)] = [0]"
    by (simp add: default_max_pages_def)
  have a: "pdf_to_images ?env ''JVBERi0='' default_max_pages = Inr [''b64:p0'']"
    unfolding pdf_to_images_def by (simp add: fixed_env_def one render_page_def)
  have b: "create_message ?env (AnthropicDirectClient ''key'') ''rules''
      (user_messages (build_content [''b64:p0''])) default_model default_max_tokens
      default_temperature = Inr ?resp"
    by (simp add: create_message_def fixed_env_def)
  have c: "py_in ''content'' ?resp = Inr True" by simp
  have d: "py_getitem_str ?resp ''content'' = Inr (JArray [?first])" by simp
  have e: "py_len (JArray [?first]) = Inr 1" by simp
  have f: "py_getitem_0 (JArray [?first]) = Inr ?first" by simp
  have g: "py_getitem_str ?first ''text'' = Inr (JString ''```json\<newline>null\<newline>```'')" by simp
  have h: "json_loads ?env ''null'' = Inr JNull" by (simp add: fixed_env_def)
  have pos: "(0::nat) < 1" by simp
  from null_literal_is_silent [OF a b c d e pos f g fenced_null h] fenced_null
  show ?thesis by blast
qed

subsection \<open>Splitting at fences\<close>

lemma split_pieces_nonempty: "split_pieces sep s \<noteq> []"
  by (subst split_pieces.simps) (auto split: list.splits simp: Let_def)

lemma prefix_within: "prefix p (u @ v) \<Longrightarrow> length p \<le> length u \<Longrightarrow> prefix p u"
  by (auto simp: prefix_append)

lemma py_contains_append_right: "py_contains sub s \<Longrightarrow> py_contains sub (s @ r)"
proof -
  assume "py_contains sub s"
  then obtain a b where "s = a @ sub @ b" by (auto simp: py_contains_iff)
  then have "s @ r = a @ sub @ (b @ r)" by simp
  then show ?thesis unfolding py_contains_iff by blast
qed

lemma split_pieces_absent:
  "sep \<noteq> [] \<Longrightarrow> \<not> py_contains sep s \<Longrightarrow> split_pieces sep s = [s]"
proof (induction s)
  case Nil
  then show ?case by (subst split_pieces.simps) simp
next
  case (Cons x s)
  from Cons.prems have np: "\<not> prefix sep (x # s)" and nc: "\<not> py_contains sep s" by auto
  from Cons.IH [OF Cons.prems(1) nc] np show ?case
    by (subst split_pieces.simps) simp
qed

lemma split_pieces_first:
  "sep \<noteq> [] \<Longrightarrow> \<not> py_contains sep (a @ butlast sep) \<Longrightarrow>
   split_pieces sep (a @ sep @ r) = a # split_pieces sep r"
proof (induction a)
  case Nil
  then show ?case by (subst split_pieces.simps) simp
next
  case (Cons x a)
  from Cons.prems(2) have np: "\<not> prefix sep (x # a @ butlast sep)"
    and nc: "\<not> py_contains sep (a @ butlast sep)" by auto
  have "\<not> prefix sep (x # a @ sep @ r)"
  proof
    assume p: "prefix sep (x # a @ sep @ r)"
    from Cons.prems(1) have "x # a @ sep @ r = (x # a @ butlast sep) @ [last sep] @ r" by simp
    with p have "prefix sep ((x # a @ butlast sep) @ [last sep] @ r)" by simp
    moreover from Cons.prems(1) have "length sep \<le> length (x # a @ butlast sep)" by simp
    ultimately have "prefix sep (x # a @ butlast sep)" by (rule prefix_within)
    with np show False by simp
  qed
  with Cons.IH [OF Cons.prems(1) nc] show ?case
    by (subst split_pieces.simps) simp
qed

lemma first_piece_unfold:
  "hd (split_pieces sep s) =
     (if sep \<noteq> [] \<and> prefix sep s then []
      else case s of [] \<Rightarrow> [] | c # cs \<Rightarrow> c # hd (split_pieces sep cs))"
  by (subst split_pieces.simps) (simp split: list.splits add: Let_def)

text \<open>The piece before the next JSON fence either stops at the closing fence or runs past it.\<close>

lemma segment_before_json_fence:
  assumes "\<not> py_contains ''```'' (b @ ''``'')"
    and "\<not> prefix ''`json'' c" and "\<not> prefix ''``json'' c"
  shows "hd (split_pieces ''```json'' (b @ ''```'' @ c)) = b
       \<or> (\<exists>d. hd (split_pieces ''```json'' (b @ ''```'' @ c)) = b @ ''```'' @ d)"
  using assms(1)
proof (induction b)
  case Nil
  show ?case
  proof (cases "prefix ''json'' c")
    case True
    then show ?thesis by (subst first_piece_unfold) simp
  next
    case False
    have "hd (split_pieces ''```json'' ([] @ ''```'' @ c)) = ''```'' @ hd (split_pieces ''```json'' c)"
      using False assms(2,3)
      by (simp add: first_piece_unfold [of _ "CHR 0x60 # _"])
    then show ?thesis
      by (intro disjI2 exI [of _ "hd (split_pieces ''```json'' c)"]) simp
  qed
next
  case (Cons x b)
  from Cons.prems have np: "\<not> prefix ''```'' (x # b @ ''``'')"
    and nc: "\<not> py_contains ''```'' (b @ ''``'')" by auto
  have "\<not> prefix ''```json'' (x # b @ ''```'' @ c)"
  proof
    assume p: "prefix ''```json'' (x # b @ ''```'' @ c)"
    have "prefix ''```'' ''```json''" by simp
    from this p have q: "prefix ''```'' (x # b @ ''```'' @ c)"
      by (rule prefix_order.trans)
    have eq: "x # b @ ''```'' @ c = (x # b @ ''``'') @ ''`'' @ c" by simp
    have len: "length ''```'' \<le> length (x # b @ ''``'')" by simp
    from q have "prefix ''```'' ((x # b @ ''``'') @ ''`'' @ c)" unfolding eq .
    from this len have "prefix ''```'' (x # b @ ''``'')" by (rule prefix_within)
    with np show False by blast
  qed
  then have step: "hd (split_pieces ''```json'' ((x # b) @ ''```'' @ c)) =
      x # hd (split_pieces ''```json'' (b @ ''```'' @ c))"
    by (subst first_piece_unfold) simp
  from Cons.IH [OF nc] show ?case unfolding step by auto
qed

lemma inner_between_json_fences:
  assumes "\<not> py_contains ''```'' (b @ ''``'')"
    and "\<not> prefix ''`json'' c" and "\<not> prefix ''``json'' c"
  shows "hd (split_pieces ''```'' (hd (split_pieces ''```json'' (b @ ''```'' @ c)))) = b"
proof -
  from assms(1) have nb: "\<not> py_contains ''```'' b"
    using py_contains_append_right by blast
  from segment_before_json_fence [OF assms] show ?thesis
  proof
    assume "hd (split_pieces ''```json'' (b @ ''```'' @ c)) = b"
    with nb show ?thesis by (simp add: split_pieces_absent)
  next
    assume "\<exists>d. hd (split_pieces ''```json'' (b @ ''```'' @ c)) = b @ ''```'' @ d"
    then obtain d where d: "hd (split_pieces ''```json'' (b @ ''```'' @ c)) = b @ ''```'' @ d" by blast
    from assms(1) have "split_pieces ''```'' (b @ ''```'' @ d) = b # split_pieces ''```'' d"
      by (intro split_pieces_first) simp_all
    with d show ?thesis by simp
  qed
qed

subsection \<open>The response parser\<close>

lemma json_fence_is_fence: "py_contains ''```json'' t \<Longrightarrow> py_contains ''```'' t"
proof -
  assume "py_contains ''```json'' t"
  then obtain a b where "t = a @ ''```json'' @ b" by (auto simp: py_contains_iff)
  then have "t = a @ ''```'' @ (''json'' @ b)" by simp
  then show ?thesis unfolding py_contains_iff by blast
qed

lemma second_piece:
  assumes "sep \<noteq> []" and "\<not> py_contains sep (a @ butlast sep)"
  shows "py_index (split_pieces sep (a @ sep @ r)) 1 = Inr (hd (split_pieces sep r))"
proof -
  from assms have "split_pieces sep (a @ sep @ r) = a # split_pieces sep r"
    by (rule split_pieces_first)
  moreover obtain p ps where "split_pieces sep r = p # ps"
    using split_pieces_nonempty [of sep r] by (cases "split_pieces sep r") auto
  ultimately show ?thesis by (simp add: py_index_def)
qed

lemma first_piece_index: "py_index (split_pieces sep s) 0 = Inr (hd (split_pieces sep s))"
  using split_pieces_nonempty [of sep s]
  by (cases "split_pieces sep s") (auto simp: py_index_def)

lemma take_json_fence:
  assumes "py_contains ''```json'' t"
    and "py_index (split_pieces ''```json'' t) 1 = Inr after"
    and "hd (split_pieces ''```'' after) = inner"
  shows "extract_json_str (JString t) = Inr (py_strip inner)"
  unfolding extract_json_str_def using assms
  by (simp add: py_split_def first_piece_index del: py_contains.simps)

lemma take_plain_fence:
  assumes "\<not> py_contains ''```json'' t" and "py_contains ''```'' t"
    and "py_index (split_pieces ''```'' t) 1 = Inr after"
    and "hd (split_pieces ''```'' after) = inner"
  shows "extract_json_str (JString t) = Inr (py_strip inner)"
  unfolding extract_json_str_def using assms
  by (simp add: py_split_def first_piece_index del: py_contains.simps)

lemma json_fence_branch:
  assumes "\<not> py_contains ''```json'' (a @ ''```jso'')"
    and "\<not> py_contains ''```'' (b @ ''``'')"
    and "\<not> prefix ''`json'' c" and "\<not> prefix ''``json'' c"
  shows "extract_json_str (JString (a @ ''```json'' @ b @ ''```'' @ c)) = Inr (py_strip b)"
proof -
  let ?t = "a @ ''```json'' @ b @ ''```'' @ c"
  have has: "py_contains ''```json'' ?t" by (rule py_contains_middle)
  from assms(1) have "\<not> py_contains ''```json'' (a @ butlast ''```json'')" by simp
  then have second: "py_index (split_pieces ''```json'' ?t) 1 =
      Inr (hd (split_pieces ''```json'' (b @ ''```'' @ c)))"
    by (intro second_piece) simp_all
  have inner: "hd (split_pieces ''```'' (hd (split_pieces ''```json'' (b @ ''```'' @ c)))) = b"
    using assms(2-4) by (rule inner_between_json_fences)
  from has second inner show ?thesis by (rule take_json_fence)
qed

lemma plain_fence_branch:
  assumes "\<not> py_contains ''```json'' (a @ ''```'' @ b @ ''```'' @ c)"
    and "\<not> py_contains ''```'' (a @ ''``'')"
    and "\<not> py_contains ''```'' (b @ ''``'')"
  shows "extract_json_str (JString (a @ ''```'' @ b @ ''```'' @ c)) = Inr (py_strip b)"
proof -
  let ?t = "a @ ''```'' @ b @ ''```'' @ c"
  have has: "py_contains ''```'' ?t" by (rule py_contains_middle)
  from assms(2) have "\<not> py_contains ''```'' (a @ butlast ''```'')" by simp
  then have second: "py_index (split_pieces ''```'' ?t) 1 =
      Inr (hd (split_pieces ''```'' (b @ ''```'' @ c)))"
    by (intro second_piece) simp_all
  from assms(3) have "\<not> py_contains ''```'' (b @ butlast ''```'')" by simp
  then have "split_pieces ''```'' (b @ ''```'' @ c) = b # split_pieces ''```'' c"
    by (intro split_pieces_first) simp_all
  then have piece: "hd (split_pieces ''```'' (b @ ''```'' @ c)) = b" by simp
  from assms(3) have "\<not> py_contains ''```'' b"
    using py_contains_append_right by blast
  then have "split_pieces ''```'' b = [b]"
    by (intro split_pieces_absent) simp_all
  then have inner: "hd (split_pieces ''```'' b) = b" by simp
  from second piece have second': "py_index (split_pieces ''```'' ?t) 1 = Inr b"
    by (simp only:)
  from assms(1) has second' inner show ?thesis by (rule take_plain_fence)
qed

lemma no_fence_branch:
  assumes "\<not> py_contains ''```'' t"
  shows "extract_json_str (JString t) = Inr (py_strip t)"
proof -
  from assms have "\<not> py_contains ''```json'' t"
    using json_fence_is_fence by blast
  with assms show ?thesis
    unfolding extract_json_str_def by (simp del: py_contains.simps)
qed

lemma fenced_object:
  \<open>extract_json_str (JString ''```json\<newline>{"a":1}\<newline>```'') = Inr ''{"a":1}''\<close>
  by code_simp


text \<open>
  C1. At the text \<^verbatim>\<open>```json{}````json\<close> the parser does not extract the content
  between the opening fence and the next closing fence: line 119 splits at every JSON
  fence first, the piece it keeps is \<^verbatim>\<open>{}`\<close>, which holds no complete fence, so the
  stray back-tick stays in the extract and decoding fails. The sibling branch of line 121
  cuts at the next fence for the same shape of text and returns the object.
\<close>

theorem stray_backtick_at_json_fence:
  "split_pieces ''```json'' ''```json{}````json'' = ['''', ''{}`'', '''']
   \<and> extract_json_str (JString ''```json{}````json'') = Inr ''{}`''
   \<and> extract_json_str (JString ''```{}````'') = Inr ''{}''
   \<and> process_response
        (fixed_env (Inr []) \<lparr>status_code = 200, body_text = [], body_json = Inr JNull\<rparr>
           [(''{}'', JObject [])])
        (JObject [(''content'', JArray [JObject [(''type'', JString ''text''),
           (''text'', JString ''```json{}````json'')]])])
      = Inl (LibraryError ''Expecting value'')
   \<and> process_response
        (fixed_env (Inr []) \<lparr>status_code = 200, body_text = [], body_json = Inr JNull\<rparr>
           [(''{}'', JObject [])])
        (JObject [(''content'', JArray [JObject [(''type'', JString ''text''),
           (''text'', JString ''```{}````'')]])])
      = Inr (JObject [], None)"
  by code_simp

text \<open>
  Where the three branches do cut at the fences. With the first JSON-marked fence at the
  end of \<open>a\<close> and the next fence after it at the end of \<open>b\<close>, the extract is \<open>b\<close>
  trimmed when that closing fence is not directly followed by one or two back-ticks and
  the JSON marker. Without a JSON-marked fence, the extract is the trimmed text between
  the first two fences. Without any fence it is the whole text, trimmed. For the fenced
  text \<^verbatim>\<open>{"a":1}\<close> on a line of its own between a JSON fence and a closing
  fence, the parser returns what the decoder gives for \<^verbatim>\<open>{"a":1}\<close>, with no
  error.
\<close>

theorem fence_branches:
  \<open>(\<not> py_contains ''```json'' (a @ ''```jso'') \<and> \<not> py_contains ''```'' (b @ ''``'')
      \<and> \<not> prefix ''`json'' c \<and> \<not> prefix ''``json'' c
      \<longrightarrow> extract_json_str (JString (a @ ''```json'' @ b @ ''```'' @ c)) = Inr (py_strip b))
   \<and> (\<not> py_contains ''```json'' (a @ ''```'' @ b @ ''```'' @ c)
      \<and> \<not> py_contains ''```'' (a @ ''``'') \<and> \<not> py_contains ''```'' (b @ ''``'')
      \<longrightarrow> extract_json_str (JString (a @ ''```'' @ b @ ''```'' @ c)) = Inr (py_strip b))
   \<and> (\<not> py_contains ''```'' t \<longrightarrow> extract_json_str (JString t) = Inr (py_strip t))
   \<and> (json_loads env ''{"a":1}'' = Inr (JObject [(''a'', JInt 1)])
      \<longrightarrow> process_response env
            (JObject [(''content'', JArray [JObject [(''type'', JString ''text''),
               (''text'', JString ''```json\<newline>{"a":1}\<newline>```'')]])])
          = Inr (JObject [(''a'', JInt 1)], None))\<close>
proof (intro conjI impI)
  assume "\<not> py_contains ''```json'' (a @ ''```jso'') \<and> \<not> py_contains ''```'' (b @ ''``'')
      \<and> \<not> prefix ''`json'' c \<and> \<not> prefix ''``json'' c"
  then show "extract_json_str (JString (a @ ''```json'' @ b @ ''```'' @ c)) = Inr (py_strip b)"
    using json_fence_branch by blast
next
  assume "\<not> py_contains ''```json'' (a @ ''```'' @ b @ ''```'' @ c)
      \<and> \<not> py_contains ''```'' (a @ ''``'') \<and> \<not> py_contains ''```'' (b @ ''``'')"
  then show "extract_json_str (JString (a @ ''```'' @ b @ ''```'' @ c)) = Inr (py_strip b)"
    using plain_fence_branch by blast
next
  assume "\<not> py_contains ''```'' t"
  then show "extract_json_str (JString t) = Inr (py_strip t)"
    by (rule no_fence_branch)
next
  assume \<open>json_loads env ''{"a":1}'' = Inr (JObject [(''a'', JInt 1)])\<close>
  then show \<open>process_response env
      (JObject [(''content'', JArray [JObject [(''type'', JString ''text''),
         (''text'', JString ''```json\<newline>{"a":1}\<newline>```'')]])])
      = Inr (JObject [(''a'', JInt 1)], None)\<close>
    unfolding process_response_def by (simp add: fenced_object del: py_contains.simps)
qed


theorem fence_branches_witness:
  \<open>\<not> py_contains ''```json'' ([] @ ''```jso'')
   \<and> \<not> py_contains ''```'' (''\<newline>{"a":1}\<newline>'' @ ''``'')
   \<and> extract_json_str (JString ''```json\<newline>{"a":1}\<newline>```'') = Inr ''{"a":1}''
   \<and> \<not> py_contains ''```json'' ''x``` {} ```y''
   \<and> extract_json_str (JString ''x``` {} ```y'') = Inr ''{}''
   \<and> \<not> py_contains ''```'' ''  no fences {"a":1} ''
   \<and> extract_json_str (JString ''  no fences {"a":1} '') = Inr ''no fences {"a":1}''
   \<and> process_response
        (fixed_env (Inr []) \<lparr>status_code = 200, body_text = [], body_json = Inr JNull\<rparr>
           [(''{"a":1}'', JObject [(''a'', JInt 1)])])
        (JObject [(''content'', JArray [JObject [(''type'', JString ''text''),
           (''text'', JString ''```json\<newline>{"a":1}\<newline>```'')]])])
      = Inr (JObject [(''a'', JInt 1)], None)\<close>
proof -
  let ?env = \<open>fixed_env (Inr []) \<lparr>status_code = 200, body_text = [], body_json = Inr JNull\<rparr>
      [(''{"a":1}'', JObject [(''a'', JInt 1)])]\<close>
  have a1: \<open>\<not> py_contains ''```json'' ([] @ ''```jso'')\<close> by code_simp
  have a2: \<open>\<not> py_contains ''```'' (''\<newline>{"a":1}\<newline>'' @ ''``'')\<close> by code_simp
  have a3: \<open>\<not> prefix ''`json'' ([] :: string)\<close> by simp
  have a4: \<open>\<not> prefix ''``json'' ([] :: string)\<close> by simp
  have b1: \<open>\<not> py_contains ''```json'' (''x'' @ ''```'' @ '' {} '' @ ''```'' @ ''y'')\<close> by code_simp
  have b2: \<open>\<not> py_contains ''```'' (''x'' @ ''``'')\<close> by code_simp
  have b3: \<open>\<not> py_contains ''```'' ('' {} '' @ ''``'')\<close> by code_simp
  have c1: \<open>\<not> py_contains ''```'' ''  no fences {"a":1} ''\<close> by code_simp
  have d1: \<open>json_loads ?env ''{"a":1}'' = Inr (JObject [(''a'', JInt 1)])\<close>
    by (simp add: fixed_env_def)
  have s1: \<open>py_strip ''\<newline>{"a":1}\<newline>'' = ''{"a":1}''\<close> by code_simp
  have s2: \<open>py_strip '' {} '' = ''{}''\<close> by code_simp
  have s3: \<open>py_strip ''  no fences {"a":1} '' = ''no fences {"a":1}''\<close> by code_simp
  note th = fence_branches [of \<open>[]\<close> \<open>''\<newline>{"a":1}\<newline>''\<close> \<open>[]\<close> \<open>''  no fences {"a":1} ''\<close> ?env]
  from th a1 a2 a3 a4
  have \<open>extract_json_str (JString ([] @ ''```json'' @ ''\<newline>{"a":1}\<newline>'' @ ''```'' @ []))
      = Inr (py_strip ''\<newline>{"a":1}\<newline>'')\<close>
    by blast
  then have r1: \<open>extract_json_str (JString ''```json\<newline>{"a":1}\<newline>```'') = Inr ''{"a":1}''\<close>
    by (simp add: s1)
  from fence_branches [of \<open>''x''\<close> \<open>'' {} ''\<close> \<open>''y''\<close> \<open>''  no fences {"a":1} ''\<close> ?env] b1 b2 b3
  have \<open>extract_json_str (JString (''x'' @ ''```'' @ '' {} '' @ ''```'' @ ''y'')) = Inr (py_strip '' {} '')\<close>
    by blast
  then have r2: \<open>extract_json_str (JString ''x``` {} ```y'') = Inr ''{}''\<close>
    by (simp add: s2)
  from b1 have b1': \<open>\<not> py_contains ''```json'' ''x``` {} ```y''\<close> by simp
  from th c1 have \<open>extract_json_str (JString ''  no fences {"a":1} '') =
      Inr (py_strip ''  no fences {"a":1} '')\<close>
    by blast
  then have r3: \<open>extract_json_str (JString ''  no fences {"a":1} '') = Inr ''no fences {"a":1}''\<close>
    by (simp add: s3)
  from th d1 have r4: \<open>process_response ?env
      (JObject [(''content'', JArray [JObject [(''type'', JString ''text''),
         (''text'', JString ''```json\<newline>{"a":1}\<newline>```'')]])])
      = Inr (JObject [(''a'', JInt 1)], None)\<close>
    by blast
  from a1 a2 r1 b1' r2 c1 r3 r4 show ?thesis by blast
qed

end
